theory Spec2Isabelle
  imports Complex_Main "HOL-Library.Product_Lexorder"
begin

section \<open>PharmVector: document embedding, indexing task and similarity search\<close>

text \<open>
  A shallow embedding of the embedding pipeline of the PharmVector service:
  \<^verbatim>\<open>app/utils/embeddings.py\<close> (the embedder), \<^verbatim>\<open>app/tasks/embeddings.py\<close> (the indexing
  task), \<^verbatim>\<open>app/routers/documents.py\<close> (create, search, delete) and
  \<^verbatim>\<open>app/schemas.py\<close> (the search request).

  Conventions of the model.
  \<^item> A vector is a list of reals; the reals stand for the floats of the program. A
    distance or a similarity is a \<open>float8\<close>: a real, or the value that is not a
    number.
  \<^item> The \<^verbatim>\<open>documents\<close> table is the list of its rows in scan order.
  \<^item> An exception is a value of type \<open>error\<close>; a function that can raise returns
    \<open>error + 'a\<close>, with \<open>Inl\<close> for the exception.
  \<^item> What the program takes from libraries (the sentence-transformer model, Python's
    \<^verbatim>\<open>str\<close> on a float, the store's parser of a float) is a field of the record \<open>env\<close>.
\<close>

subsection \<open>Data model\<close>

type_synonym vec = "real list"

text \<open>
  A double precision value of the store: a number, or \<open>NaN\<close>. The store orders
  \<open>NaN\<close> after every number and equal to itself; \<open>float8_key\<close> maps a value to a pair
  whose lexicographic order is that order. Arithmetic on \<open>NaN\<close> gives \<open>NaN\<close>.
\<close>

datatype float8 = Num real | NaN

fun float8_key :: "float8 \<Rightarrow> bool \<times> real" where
  "float8_key (Num r) = (False, r)"
| "float8_key NaN = (True, 0)"

definition float8_le :: "float8 \<Rightarrow> float8 \<Rightarrow> bool" where
  "float8_le a b = (float8_key a \<le> float8_key b)"

fun one_minus :: "float8 \<Rightarrow> float8" where
  "one_minus (Num r) = Num (1 - r)"
| "one_minus NaN = NaN"

datatype error =
    RequestValidationError
  | HTTP_404_NOT_FOUND
  | ModelError
  | SQLAlchemyError
  | MultipleResultsFound

text \<open>
  Modelled from the spec: the ORM class \<^verbatim>\<open>Document\<close> of \<^verbatim>\<open>app/models.py\<close>, which is not
  among the sources. The spec gives a document an opaque id, an owner id, a title, a
  content, an optional embedding (absent until indexed) and a creation time; the field
  names are the ones the routers and the indexing task use.
\<close>

record document =
  id_doc :: int
  title :: string
  content :: string
  user_id :: int
  embedding :: "vec option"
  created_at :: int

text \<open>\<^verbatim>\<open>DocumentSearchResult\<close> of \<^verbatim>\<open>app/schemas.py\<close>.\<close>

record document_search_result =
  id_res :: int
  title_res :: string
  content_res :: string
  similarity :: float8
  created_at_res :: int

text \<open>\<^verbatim>\<open>DocumentSearchRequest\<close> and \<^verbatim>\<open>DocumentCreate\<close> of \<^verbatim>\<open>app/schemas.py\<close>.\<close>

record document_search_request =
  query :: string

record document_create =
  title_new :: string
  content_new :: string

text \<open>
  The environment of a process: \<open>load_model\<close> is the outcome of
  \<^verbatim>\<open>SentenceTransformer('all-MiniLM-L6-v2')\<close> (\<open>None\<close> when the model cannot be
  loaded), a loaded model being its \<^verbatim>\<open>encode\<close> method (\<open>None\<close> when it raises);
  \<open>str_float\<close> is Python's \<^verbatim>\<open>str\<close> on a float; \<open>float_in\<close> is the store's
  parser of one vector element.
\<close>

record env =
  load_model :: "(string \<Rightarrow> vec option) option"
  str_float :: "real \<Rightarrow> string"
  float_in :: "string \<Rightarrow> real option"

subsection \<open>The embedder (\<^verbatim>\<open>app/utils/embeddings.py\<close>)\<close>

text \<open>
  \<^verbatim>\<open>get_embedding_model\<close> is memoised with \<^verbatim>\<open>lru_cache\<close>: the environment fixes what
  loading yields, so the memoised call and the first call return the same model.
\<close>

definition get_embedding_model :: "env \<Rightarrow> error + (string \<Rightarrow> vec option)" where
  "get_embedding_model e =
     (case load_model e of None \<Rightarrow> Inl ModelError | Some m \<Rightarrow> Inr m)"

definition generate_embedding :: "env \<Rightarrow> string \<Rightarrow> error + vec" where
  "generate_embedding e txt =
     (case get_embedding_model e of
        Inl err \<Rightarrow> Inl err
      | Inr model \<Rightarrow>
          (case model txt of None \<Rightarrow> Inl ModelError | Some v \<Rightarrow> Inr v))"

subsection \<open>The vector store's distance operator\<close>

text \<open>
  The operator \<^verbatim>\<open><=>\<close> of the SQL statement is the store's cosine distance. On
  operands of different dimension it raises. Otherwise it divides the inner product by
  the square root of the product of the squared norms and returns one minus the
  quotient; when an operand has norm zero the quotient is 0/0, which is not a number,
  and so is the distance. The store computes in floating point; the model computes over
  the reals.
\<close>

definition inner_product :: "vec \<Rightarrow> vec \<Rightarrow> real" where
  "inner_product a b = sum_list (map2 (*) a b)"

definition cosine_distance :: "vec \<Rightarrow> vec \<Rightarrow> error + float8" where
  "cosine_distance a b =
     (if length a \<noteq> length b then Inl SQLAlchemyError
      else if inner_product a a = 0 \<or> inner_product b b = 0 then Inr NaN
      else Inr (Num (1 - inner_product a b / sqrt (inner_product a a * inner_product b b))))"

subsection \<open>The textual encoding of the query vector\<close>

text \<open>Python's \<^verbatim>\<open>sep.join(xs)\<close>.\<close>

fun join :: "string \<Rightarrow> string list \<Rightarrow> string" where
  "join sep [] = []"
| "join sep [x] = x"
| "join sep (x # y # ys) = x @ sep @ join sep (y # ys)"

text \<open>\<^verbatim>\<open>'[' + ','.join(map(str, query_embedding)) + ']'\<close>\<close>

definition embedding_str :: "(real \<Rightarrow> string) \<Rightarrow> vec \<Rightarrow> string" where
  "embedding_str str v = ''['' @ join '','' (map str v) @ '']''"

text \<open>
  A text written with digits, a sign, a point and an exponent mark only, as Python
  prints a finite float (\<^verbatim>\<open>0.0123\<close>, \<^verbatim>\<open>-0.451\<close>, \<^verbatim>\<open>1e-05\<close>).
\<close>

definition decimal_char :: "char \<Rightarrow> bool" where
  "decimal_char c = (c \<in> set ''0123456789.-+e'')"

definition decimal_text :: "string \<Rightarrow> bool" where
  "decimal_text s = (s \<noteq> [] \<and> list_all decimal_char s)"

text \<open>
  \<^verbatim>\<open>CAST(:query_embedding AS vector)\<close>: the store reads a bracketed list, splits it at
  the commas and parses every element; a text of another shape, or with an element that
  does not parse, is an error of the statement.
\<close>

fun split_commas :: "string \<Rightarrow> string list" where
  "split_commas [] = [[]]"
| "split_commas (c # cs) =
     (if c = CHR '','' then [] # split_commas cs
      else (case split_commas cs of
              [] \<Rightarrow> [[c]]
            | w # ws \<Rightarrow> (c # w) # ws))"

fun parse_all :: "('a \<Rightarrow> 'b option) \<Rightarrow> 'a list \<Rightarrow> 'b list option" where
  "parse_all p [] = Some []"
| "parse_all p (x # xs) =
     (case p x of
        None \<Rightarrow> None
      | Some y \<Rightarrow> (case parse_all p xs of None \<Rightarrow> None | Some ys \<Rightarrow> Some (y # ys)))"

definition cast_vector :: "(string \<Rightarrow> real option) \<Rightarrow> string \<Rightarrow> vec option" where
  "cast_vector parse s =
     (case s of
        [] \<Rightarrow> None
      | c # cs \<Rightarrow>
          if c = CHR ''['' \<and> cs \<noteq> [] \<and> last cs = CHR '']''
          then parse_all parse (split_commas (butlast cs))
          else None)"

subsection \<open>The search statement (\<^verbatim>\<open>search_documents\<close>, the SQL text)\<close>

text \<open>
  \<^verbatim>\<open>WHERE user_id = :user_id AND embedding IS NOT NULL\<close>: the rows of the owner that
  have an embedding, each with that embedding.
\<close>

fun candidates :: "document list \<Rightarrow> int \<Rightarrow> (document \<times> vec) list" where
  "candidates [] uid = []"
| "candidates (d # ds) uid =
     (case embedding d of
        None \<Rightarrow> candidates ds uid
      | Some v \<Rightarrow> (if user_id d = uid then (d, v) # candidates ds uid
                  else candidates ds uid))"

text \<open>
  The statement evaluates \<^verbatim>\<open>embedding <=> q\<close> on each of these rows, in scan order;
  the first evaluation that raises is the outcome of the statement.
\<close>

fun distances :: "vec \<Rightarrow> (document \<times> vec) list \<Rightarrow> error + (document \<times> float8) list" where
  "distances q [] = Inr []"
| "distances q (dv # rest) =
     (case cosine_distance (snd dv) q of
        Inl err \<Rightarrow> Inl err
      | Inr x \<Rightarrow>
          (case distances q rest of
             Inl err \<Rightarrow> Inl err
           | Inr xs \<Rightarrow> Inr ((fst dv, x) # xs)))"

text \<open>
  \<^verbatim>\<open>SELECT id, title, content, created_at, 1 - (embedding <=> q) AS similarity\<close>, and
  the \<^verbatim>\<open>DocumentSearchResult\<close> built from each row.
\<close>

definition select_row :: "document \<times> float8 \<Rightarrow> document_search_result" where
  "select_row dx =
     \<lparr>id_res = id_doc (fst dx), title_res = title (fst dx), content_res = content (fst dx),
      similarity = one_minus (snd dx), created_at_res = created_at (fst dx)\<rparr>"

text \<open>
  \<^verbatim>\<open>ORDER BY embedding <=> q LIMIT 3\<close>, in the store's order of distances. SQL leaves
  the order of rows at equal distance open; the model keeps them in scan order
  (\<open>sort_key\<close> is stable).
\<close>

definition top_k_by_similarity ::
  "document list \<Rightarrow> int \<Rightarrow> vec \<Rightarrow> error + document_search_result list" where
  "top_k_by_similarity docs uid q =
     (case distances q (candidates docs uid) of
        Inl err \<Rightarrow> Inl err
      | Inr xs \<Rightarrow> Inr (map select_row (take 3 (sort_key (\<lambda>dx. float8_key (snd dx)) xs))))"

subsection \<open>The search endpoint (\<^verbatim>\<open>search_documents\<close>)\<close>

text \<open>
  What a request does besides returning: \<open>Sql_execute\<close> is a statement sent to the
  store, \<open>Log_user_action\<close> a call of \<^verbatim>\<open>log_user_action\<close> with the user and the action.
\<close>

datatype event = Sql_execute | Log_user_action int string

text \<open>
  \<^verbatim>\<open>db.execute(sql.bindparams(query_embedding=embedding_str, user_id=...))\<close> and
  \<^verbatim>\<open>result.fetchall()\<close>: the statement casts its text parameter to a vector and
  ranks the owner's rows against it; it raises when the cast or the distance operator
  raises.
\<close>

definition execute_search_sql ::
  "env \<Rightarrow> document list \<Rightarrow> string \<Rightarrow> int \<Rightarrow> error + document_search_result list" where
  "execute_search_sql e docs query_embedding uid =
     (case cast_vector (float_in e) query_embedding of
        None \<Rightarrow> Inl SQLAlchemyError
      | Some q \<Rightarrow> top_k_by_similarity docs uid q)"

text \<open>
  The body of \<^verbatim>\<open>search_documents\<close>, in the order of the source: embed the query (an
  exception leaves the function at once), build the text of the vector, execute the
  statement, log, build the results.
\<close>

definition search_documents ::
  "env \<Rightarrow> document list \<Rightarrow> int \<Rightarrow> document_search_request
     \<Rightarrow> (error + document_search_result list) \<times> event list" where
  "search_documents e docs current_user search_request =
     (case generate_embedding e (query search_request) of
        Inl err \<Rightarrow> (Inl err, [])
      | Inr query_embedding \<Rightarrow>
          (case execute_search_sql e docs (embedding_str (str_float e) query_embedding)
                  current_user of
             Inl err \<Rightarrow> (Inl err, [Sql_execute])
           | Inr rows \<Rightarrow>
               (Inr rows, [Sql_execute, Log_user_action current_user ''DOCUMENT_SEARCH''])))"

text \<open>
  The body of a request as the framework hands it to the schema: a JSON object, read
  as a map from its keys to their values. \<^verbatim>\<open>DocumentSearchRequest\<close> declares one
  field, \<^verbatim>\<open>query: str\<close>, with no further constraint: the body validates when the key
  is there and its value is a string.
\<close>

datatype json = JNull | JBool bool | JNumber real | JString string

definition validate_search_request ::
  "(string \<rightharpoonup> json) \<Rightarrow> error + document_search_request" where
  "validate_search_request body =
     (case body ''query'' of
        Some (JString s) \<Rightarrow> Inr \<lparr>query = s\<rparr>
      | _ \<Rightarrow> Inl RequestValidationError)"

text \<open>\<^verbatim>\<open>POST /documents/search\<close>: validation of the body, then the endpoint's function.\<close>

definition post_search ::
  "env \<Rightarrow> document list \<Rightarrow> int \<Rightarrow> (string \<rightharpoonup> json)
     \<Rightarrow> (error + document_search_result list) \<times> event list" where
  "post_search e docs current_user body =
     (case validate_search_request body of
        Inl err \<Rightarrow> (Inl err, [])
      | Inr search_request \<Rightarrow> search_documents e docs current_user search_request)"

subsection \<open>The store and the indexing task (\<^verbatim>\<open>app/tasks/embeddings.py\<close>)\<close>

text \<open>
  The committed state of the store: the rows of \<^verbatim>\<open>documents\<close> and the next value of
  the sequence that numbers them.
\<close>

record database =
  documents :: "document list"
  next_id :: int

text \<open>\<^verbatim>\<open>update(Document).where(Document.id == document_id).values(embedding=embedding)\<close>\<close>

definition update_embedding :: "document list \<Rightarrow> int \<Rightarrow> vec \<Rightarrow> document list" where
  "update_embedding docs document_id v =
     map (\<lambda>d. if id_doc d = document_id then d\<lparr>embedding := Some v\<rparr> else d) docs"

text \<open>
  A run of the task meets a store that works, one whose \<^verbatim>\<open>execute\<close> raises, or one
  whose \<^verbatim>\<open>commit\<close> raises. The session's calls are recorded in order.
\<close>

datatype db_fault = No_fault | Execute_fails | Commit_fails

datatype session_event = Execute | Commit | Rollback | Close

record task_result =
  status :: string
  document_id :: int

text \<open>
  \<^verbatim>\<open>generate_document_embedding\<close>: the embedding is computed before the session is
  opened and outside the \<^verbatim>\<open>try\<close>; an exception of \<^verbatim>\<open>execute\<close> or \<^verbatim>\<open>commit\<close> is
  re-raised after \<^verbatim>\<open>rollback\<close>; \<^verbatim>\<open>close\<close> runs in the \<^verbatim>\<open>finally\<close>.
\<close>

definition generate_document_embedding ::
  "env \<Rightarrow> db_fault \<Rightarrow> database \<Rightarrow> int \<Rightarrow> string
     \<Rightarrow> (error + task_result) \<times> database \<times> session_event list" where
  "generate_document_embedding e fault db doc_id txt =
     (case generate_embedding e txt of
        Inl err \<Rightarrow> (Inl err, db, [])
      | Inr v \<Rightarrow>
          (case fault of
             Execute_fails \<Rightarrow> (Inl SQLAlchemyError, db, [Execute, Rollback, Close])
           | Commit_fails \<Rightarrow> (Inl SQLAlchemyError, db, [Execute, Commit, Rollback, Close])
           | No_fault \<Rightarrow>
               (Inr \<lparr>status = ''success'', document_id = doc_id\<rparr>,
                db\<lparr>documents := update_embedding (documents db) doc_id v\<rparr>,
                [Execute, Commit, Close])))"

text \<open>
  Modelled from the spec: the queue between \<^verbatim>\<open>create_document\<close> and the worker, which
  the task library provides and the sources only configure. The spec asks for
  at-least-once delivery: a delivery whose task returns completes the job, which leaves
  the queue; a delivery whose task raises is a failure, and the job stays in the queue
  to be delivered again. The worker takes the job at the head of the queue.
\<close>

definition worker_step ::
  "env \<Rightarrow> db_fault \<Rightarrow> database \<times> (int \<times> string) list \<Rightarrow> database \<times> (int \<times> string) list" where
  "worker_step e fault s =
     (case snd s of
        [] \<Rightarrow> s
      | job # rest \<Rightarrow>
          (case generate_document_embedding e fault (fst s) (fst job) (snd job) of
             (Inl err, db', tr) \<Rightarrow> (db', rest @ [job])
           | (Inr res, db', tr) \<Rightarrow> (db', rest)))"

subsection \<open>Creating and deleting a document (\<^verbatim>\<open>app/routers/documents.py\<close>)\<close>

text \<open>
  \<^verbatim>\<open>create_document\<close>: the row is added without an embedding and committed, the store
  gives it its id, and the indexing task is enqueued with the id and the content. The
  result is the new document, the store, and the job sent to the queue.
\<close>

definition create_document ::
  "database \<Rightarrow> int \<Rightarrow> int \<Rightarrow> document_create \<Rightarrow> document \<times> database \<times> (int \<times> string)" where
  "create_document db now current_user document_data =
     (let new_document =
            \<lparr>id_doc = next_id db, title = title_new document_data,
             content = content_new document_data, user_id = current_user,
             embedding = None, created_at = now\<rparr>
      in (new_document,
          db\<lparr>documents := documents db @ [new_document], next_id := next_id db + 1\<rparr>,
          (id_doc new_document, content_new document_data)))"

text \<open>
  \<^verbatim>\<open>delete_document\<close>: \<^verbatim>\<open>scalar_one_or_none\<close> on the rows with this id and owner, 404
  when there is none, then \<^verbatim>\<open>delete(Document).where(Document.id == document_id)\<close>.
\<close>

definition delete_document :: "database \<Rightarrow> int \<Rightarrow> int \<Rightarrow> error + database" where
  "delete_document db current_user doc_id =
     (case filter (\<lambda>d. id_doc d = doc_id \<and> user_id d = current_user) (documents db) of
        [] \<Rightarrow> Inl HTTP_404_NOT_FOUND
      | [d] \<Rightarrow> Inr (db\<lparr>documents := filter (\<lambda>d. id_doc d \<noteq> doc_id) (documents db)\<rparr>)
      | _ \<Rightarrow> Inl MultipleResultsFound)"

subsection \<open>Runs of the system\<close>

text \<open>
  The operations that change the store, one at a time: a request that creates a
  document, a request that deletes one, and a worker running one delivery of an
  indexing job. A search changes nothing and is not a step.
\<close>

datatype operation =
    Create int int document_create
  | Delete int int
  | Run_task db_fault int string

fun step :: "env \<Rightarrow> database \<Rightarrow> operation \<Rightarrow> database" where
  "step e db (Create now uid document_data) = fst (snd (create_document db now uid document_data))"
| "step e db (Delete uid doc_id) =
     (case delete_document db uid doc_id of Inl err \<Rightarrow> db | Inr db' \<Rightarrow> db')"
| "step e db (Run_task fault doc_id txt) =
     fst (snd (generate_document_embedding e fault db doc_id txt))"

definition run :: "env \<Rightarrow> database \<Rightarrow> operation list \<Rightarrow> database" where
  "run e db ops = foldl (step e) db ops"


text \<open>The store numbers rows from a sequence: every id in use is below the next one.\<close>

definition ids_below_next :: "database \<Rightarrow> bool" where
  "ids_below_next db = list_all (\<lambda>d. id_doc d < next_id db) (documents db)"

text \<open>
  The primary key of \<^verbatim>\<open>documents\<close>: ids come from the sequence and no two rows share
  one.
\<close>

definition primary_key :: "database \<Rightarrow> bool" where
  "primary_key db = (ids_below_next db \<and> distinct (map id_doc (documents db)))"


subsection \<open>Example data\<close>

definition example_docs :: "document list" where
  "example_docs =
    [\<lparr>id_doc = 1, title = ''a'', content = ''x'', user_id = 1, embedding = Some [1, 0],
      created_at = 10\<rparr>,
     \<lparr>id_doc = 2, title = ''b'', content = ''y'', user_id = 1, embedding = None,
      created_at = 11\<rparr>,
     \<lparr>id_doc = 3, title = ''c'', content = ''z'', user_id = 2, embedding = Some [1, 0],
      created_at = 12\<rparr>,
     \<lparr>id_doc = 4, title = ''d'', content = ''u'', user_id = 1, embedding = Some [0, 1],
      created_at = 13\<rparr>,
     \<lparr>id_doc = 5, title = ''e'', content = ''v'', user_id = 1, embedding = Some [-1, 0],
      created_at = 14\<rparr>,
     \<lparr>id_doc = 6, title = ''f'', content = ''w'', user_id = 1, embedding = Some [1, 0],
      created_at = 15\<rparr>]"

text \<open>
  A table of owner 1 with an embedding of norm zero and an embedding opposite to the
  query \<open>[1, 0]\<close>.
\<close>

definition zero_norm_docs :: "document list" where
  "zero_norm_docs =
    [\<lparr>id_doc = 1, title = ''a'', content = ''x'', user_id = 1, embedding = Some [0, 0],
      created_at = 10\<rparr>,
     \<lparr>id_doc = 2, title = ''b'', content = ''y'', user_id = 1, embedding = Some [-1, 0],
      created_at = 11\<rparr>]"

text \<open>
  A toy environment: a model that embeds \<open>''x''\<close> as \<open>[1, 0]\<close> and any other text as
  \<open>[0, 1]\<close>, and a printer and a parser of the numbers 0, 1 and -1.
\<close>

definition example_model :: "string \<Rightarrow> vec option" where
  "example_model txt = (if txt = ''x'' then Some [1, 0] else Some [0, 1])"

definition example_str :: "real \<Rightarrow> string" where
  "example_str x =
     (if x = 0 then ''0.0'' else if x = 1 then ''1.0'' else if x = -1 then ''-1.0''
      else ''nan'')"

definition example_float_in :: "string \<Rightarrow> real option" where
  "example_float_in s =
     (if s = ''0.0'' then Some 0 else if s = ''1.0'' then Some 1
      else if s = ''-1.0'' then Some (-1) else None)"

definition example_env :: env where
  "example_env =
     \<lparr>load_model = Some example_model, str_float = example_str,
      float_in = example_float_in\<rparr>"

text \<open>The same environment in a process whose model cannot be loaded.\<close>

definition broken_env :: env where
  "broken_env =
     \<lparr>load_model = None, str_float = example_str, float_in = example_float_in\<rparr>"

definition example_db :: database where
  "example_db = \<lparr>documents = example_docs, next_id = 7\<rparr>"




section \<open>Properties\<close>

subsection \<open>Helper lemmas on the search statement\<close>

lemma set_candidates:
  "set (candidates docs uid) =
     {(d, v). d \<in> set docs \<and> embedding d = Some v \<and> user_id d = uid}"
  by (induction docs) (auto split: option.splits)

lemma set_ranked_subset: "set (take n (sort_key f xs)) \<subseteq> set xs"
  using set_take_subset [of n "sort_key f xs"] by simp

lemma cosine_distance_returns:
  "(\<exists>x. cosine_distance v q = Inr x) \<longleftrightarrow> length v = length q"
  by (simp add: cosine_distance_def)

lemma distances_returns:
  "(\<exists>xs. distances q cands = Inr xs) \<longleftrightarrow> list_all (\<lambda>dv. length (snd dv) = length q) cands"
proof (induction cands)
  case Nil
  show ?case by simp
next
  case (Cons dv rest)
  show ?case
  proof (cases "cosine_distance (snd dv) q")
    case (Inl err)
    with cosine_distance_returns [of "snd dv" q] show ?thesis by auto
  next
    case (Inr x)
    with cosine_distance_returns [of "snd dv" q] have "length (snd dv) = length q" by auto
    with Inr Cons show ?thesis by (auto split: sum.splits)
  qed
qed

lemma distances_member:
  "distances q cands = Inr xs \<Longrightarrow> dx \<in> set xs \<Longrightarrow>
   \<exists>dv \<in> set cands. fst dv = fst dx \<and> cosine_distance (snd dv) q = Inr (snd dx)"
  by (induction cands arbitrary: xs) (auto split: sum.splits)

lemma distances_covers:
  "distances q cands = Inr xs \<Longrightarrow> dv \<in> set cands \<Longrightarrow>
   \<exists>dx \<in> set xs. fst dx = fst dv \<and> cosine_distance (snd dv) q = Inr (snd dx)"
  by (induction cands arbitrary: xs) (auto split: sum.splits)


lemma top_k_rows:
  assumes "top_k_by_similarity docs uid q = Inr rows"
  obtains xs where "distances q (candidates docs uid) = Inr xs"
    and "rows = map select_row (take 3 (sort_key (\<lambda>dx. float8_key (snd dx)) xs))"
  using assms by (auto simp: top_k_by_similarity_def split: sum.splits)

lemma top_k_source:
  assumes "top_k_by_similarity docs uid q = Inr rows" and "r \<in> set rows"
  shows "\<exists>d v x. d \<in> set docs \<and> embedding d = Some v \<and> user_id d = uid \<and>
           cosine_distance v q = Inr x \<and> r = select_row (d, x)"
proof -
  from assms(1) obtain xs where xs: "distances q (candidates docs uid) = Inr xs"
    and rows: "rows = map select_row (take 3 (sort_key (\<lambda>dx. float8_key (snd dx)) xs))"
    by (rule top_k_rows)
  from assms(2) obtain dx
    where r: "r = select_row dx"
      and dx: "dx \<in> set (take 3 (sort_key (\<lambda>dx. float8_key (snd dx)) xs))"
    unfolding rows set_map by (rule imageE)
  from dx have "dx \<in> set xs"
    by (rule set_ranked_subset [THEN subsetD])
  from distances_member [OF xs this] obtain dv
    where dv: "dv \<in> set (candidates docs uid)" "fst dv = fst dx"
      "cosine_distance (snd dv) q = Inr (snd dx)"
    by blast
  obtain d v where "dv = (d, v)" by (cases dv)
  with dv r show ?thesis
    by (cases dx) (auto simp: set_candidates)
qed

lemma top_k_returns:
  "(\<exists>rows. top_k_by_similarity docs uid q = Inr rows) \<longleftrightarrow>
   list_all (\<lambda>dv. length (snd dv) = length q) (candidates docs uid)"
  unfolding distances_returns [symmetric]
  by (auto simp: top_k_by_similarity_def split: sum.splits)

lemma cosine_distance_same: "cosine_distance [1, 0] [1, 0] = Inr (Num 0)"
  by (simp add: cosine_distance_def inner_product_def)

lemma cosine_distance_orthogonal: "cosine_distance [0, 1] [1, 0] = Inr (Num 1)"
  by (simp add: cosine_distance_def inner_product_def)

lemma cosine_distance_opposite: "cosine_distance [-1, 0] [1, 0] = Inr (Num 2)"
  by (simp add: cosine_distance_def inner_product_def)

lemma cosine_distance_zero_norm: "cosine_distance [0, 0] [1, 0] = Inr NaN"
  by (simp add: cosine_distance_def inner_product_def)

lemma example_search:
  "top_k_by_similarity example_docs 1 [1, 0] =
     Inr [\<lparr>id_res = 1, title_res = ''a'', content_res = ''x'', similarity = Num 1,
           created_at_res = 10\<rparr>,
          \<lparr>id_res = 6, title_res = ''f'', content_res = ''w'', similarity = Num 1,
           created_at_res = 15\<rparr>,
          \<lparr>id_res = 4, title_res = ''d'', content_res = ''u'', similarity = Num 0,
           created_at_res = 13\<rparr>]"
  by (simp add: top_k_by_similarity_def example_docs_def select_row_def
      cosine_distance_same cosine_distance_orthogonal cosine_distance_opposite)

lemma zero_norm_search:
  "top_k_by_similarity zero_norm_docs 1 [1, 0] =
     Inr [\<lparr>id_res = 2, title_res = ''b'', content_res = ''y'', similarity = Num (- 1),
           created_at_res = 11\<rparr>,
          \<lparr>id_res = 1, title_res = ''a'', content_res = ''x'', similarity = NaN,
           created_at_res = 10\<rparr>]"
  by (simp add: top_k_by_similarity_def zero_norm_docs_def select_row_def
      cosine_distance_zero_norm cosine_distance_opposite)

subsection \<open>C1: what the search statement returns\<close>

text \<open>
  Claim C1. For every table, owner id and query vector, whenever the search statement
  returns rows it returns at most 3; every returned row is the selection of a row of
  the table that has an embedding and belongs to the querying owner, scored from that
  embedding; and, ids being unique in the table, no row without an embedding and no row
  of another owner is among the results: a document without embedding is left out, not
  given a score. The statement returns rows exactly when every embedding of the owner
  has the dimension of the query; otherwise it raises and returns nothing.
\<close>

theorem top_k_at_most_three_owned_embedded:
  "(\<forall>rows. top_k_by_similarity docs uid q = Inr rows \<longrightarrow>
      length rows \<le> 3 \<and>
      (\<forall>r \<in> set rows.
         \<exists>d \<in> set docs. \<exists>v x. embedding d = Some v \<and> user_id d = uid \<and>
           cosine_distance v q = Inr x \<and> r = select_row (d, x)) \<and>
      (distinct (map id_doc docs) \<longrightarrow>
         (\<forall>d \<in> set docs. embedding d = None \<or> user_id d \<noteq> uid \<longrightarrow>
            id_doc d \<notin> id_res ` set rows))) \<and>
   ((\<exists>rows. top_k_by_similarity docs uid q = Inr rows) \<longleftrightarrow>
      list_all (\<lambda>dv. length (snd dv) = length q) (candidates docs uid))"
proof (intro conjI allI impI ballI)
  fix rows assume t: "top_k_by_similarity docs uid q = Inr rows"
  then show "length rows \<le> 3"
    by (rule top_k_rows) simp
  {
    fix r assume "r \<in> set rows"
    from top_k_source [OF t this]
    show "\<exists>d \<in> set docs. \<exists>v x. embedding d = Some v \<and> user_id d = uid \<and>
            cosine_distance v q = Inr x \<and> r = select_row (d, x)"
      by blast
  }
  fix d assume dist: "distinct (map id_doc docs)" and d: "d \<in> set docs"
    and ex: "embedding d = None \<or> user_id d \<noteq> uid"
  show "id_doc d \<notin> id_res ` set rows"
  proof
    assume "id_doc d \<in> id_res ` set rows"
    then obtain r where r: "r \<in> set rows" "id_doc d = id_res r"
      by auto
    from top_k_source [OF t r(1)] obtain d' v x
      where d': "d' \<in> set docs" "embedding d' = Some v" "user_id d' = uid"
        "r = select_row (d', x)"
      by blast
    with r have "id_doc d = id_doc d'" by (simp add: select_row_def)
    with dist d d'(1) have "d = d'" by (meson distinct_map inj_onD)
    with ex d' show False by auto
  qed
next
  show "(\<exists>rows. top_k_by_similarity docs uid q = Inr rows) \<longleftrightarrow>
      list_all (\<lambda>dv. length (snd dv) = length q) (candidates docs uid)"
    by (rule top_k_returns)
qed

text \<open>
  On the example table, owner 1 and query \<open>[1, 0]\<close>: the ids are unique, three rows
  come back, and neither document 2 (no embedding) nor document 3 (owner 2) is there.
\<close>

theorem top_k_at_most_three_owned_embedded_witness:
  "distinct (map id_doc example_docs) \<and>
   (\<exists>rows. top_k_by_similarity example_docs 1 [1, 0] = Inr rows \<and>
      length rows \<le> 3 \<and> map id_res rows = [1, 6, 4] \<and>
      2 \<notin> id_res ` set rows \<and> 3 \<notin> id_res ` set rows)"
  using top_k_at_most_three_owned_embedded [of example_docs 1 "[1, 0]"] example_search
  by (simp add: example_docs_def)

subsection \<open>C2: the similarity score and the order of the results\<close>

lemma one_minus_one_minus: "one_minus (one_minus x) = x"
  by (cases x) simp_all

lemma ranked_sorted: "sorted (map f (take n (sort_key f xs)))"
proof -
  have "sorted (take n (map f (sort_key f xs)))"
    by (rule sorted_wrt_take) simp
  then show ?thesis by (simp only: take_map)
qed

lemma ranked_ascending:
  "sorted_wrt float8_le (map snd (take n (sort_key (\<lambda>dx. float8_key (snd dx)) xs)))"
proof -
  have "sorted (map (\<lambda>dx. float8_key (snd dx))
          (take n (sort_key (\<lambda>dx. float8_key (snd dx)) xs)))"
    by (rule ranked_sorted)
  then show ?thesis
    by (simp add: sorted_wrt_map float8_le_def)
qed

lemma descending_of_ascending:
  assumes "sorted_wrt float8_le (map snd ys)" and "list_all (\<lambda>dx. snd dx \<noteq> NaN) ys"
  shows "sorted_wrt (\<lambda>a b. float8_le b a) (map (\<lambda>dx. one_minus (snd dx)) ys)"
proof -
  have step: "float8_le (one_minus (snd b)) (one_minus (snd a))"
    if "a \<in> set ys" "b \<in> set ys" "float8_le (snd a) (snd b)" for a b
  proof -
    from that(1,2) assms(2) obtain r s where "snd a = Num r" "snd b = Num s"
      by (cases "snd a"; cases "snd b") (auto simp: list_all_iff)
    with that(3) show ?thesis by (simp add: float8_le_def)
  qed
  from assms(1) have "sorted_wrt (\<lambda>a b. float8_le (snd a) (snd b)) ys"
    by (simp add: sorted_wrt_map)
  then have "sorted_wrt (\<lambda>a b. float8_le (one_minus (snd b)) (one_minus (snd a))) ys"
    by (rule sorted_wrt_mono_rel [rotated]) (rule step)
  then show ?thesis by (simp add: sorted_wrt_map)
qed

lemma cosine_distance_value:
  assumes "cosine_distance v q = Inr x"
  shows "length v = length q \<and>
         one_minus x =
           (if sum_list (map2 (*) v v) = 0 \<or> sum_list (map2 (*) q q) = 0 then NaN
            else Num (sum_list (map2 (*) v q) /
                      sqrt (sum_list (map2 (*) v v) * sum_list (map2 (*) q q))))"
  using assms by (auto simp: cosine_distance_def inner_product_def split: if_splits)

text \<open>
  Claim C2 says that for every query the results are in descending order of
  similarity, which it takes to be the same as ascending order of distance. It is not
  when an embedding has norm zero: its distance is not a number, the store orders it
  after every number, and its similarity, not a number either, comes last instead of
  first. With an embedding \<open>[0, 0]\<close> and an embedding opposite to the query, the
  results are document 2 with similarity -1 and then document 1 with similarity
  \<open>NaN\<close>: ascending in distance, not descending in similarity.
\<close>

theorem zero_norm_not_descending:
  "\<exists>rows. top_k_by_similarity zero_norm_docs 1 [1, 0] = Inr rows \<and>
     map id_res rows = [2, 1] \<and>
     map similarity rows = [Num (- 1), NaN] \<and>
     map (\<lambda>r. one_minus (similarity r)) rows = [Num 2, NaN] \<and>
     sorted_wrt float8_le (map (\<lambda>r. one_minus (similarity r)) rows) \<and>
     \<not> sorted_wrt (\<lambda>a b. float8_le b a) (map similarity rows)"
  by (simp add: zero_norm_search float8_le_def)

text \<open>
  Claim C2, amended. For every table, owner and query vector on which the statement
  returns rows, each result comes from a row of the owner whose stored embedding has
  the dimension of the query; its similarity is 1 minus the cosine distance between
  that embedding and the query, which is the inner product of the two divided by the
  square root of the product of their squared norms, and not a number when one of them
  has norm zero. The results are in ascending order of that distance, in the store's
  order, which puts a distance that is not a number last. When the query and every
  embedding of the owner have a norm other than zero, every similarity is a number and
  the results are in descending order of similarity.
\<close>

theorem similarity_one_minus_distance_descending:
  assumes "top_k_by_similarity docs uid q = Inr rows"
  shows "(\<forall>r \<in> set rows.
            \<exists>d \<in> set docs. \<exists>v x. embedding d = Some v \<and> user_id d = uid \<and>
              id_doc d = id_res r \<and> length v = length q \<and>
              cosine_distance v q = Inr x \<and> similarity r = one_minus x \<and>
              similarity r =
                (if sum_list (map2 (*) v v) = 0 \<or> sum_list (map2 (*) q q) = 0 then NaN
                 else Num (sum_list (map2 (*) v q) /
                           sqrt (sum_list (map2 (*) v v) * sum_list (map2 (*) q q))))) \<and>
         sorted_wrt float8_le (map (\<lambda>r. one_minus (similarity r)) rows) \<and>
         (sum_list (map2 (*) q q) \<noteq> 0 \<and>
          list_all (\<lambda>dv. sum_list (map2 (*) (snd dv) (snd dv)) \<noteq> 0) (candidates docs uid) \<longrightarrow>
            list_all (\<lambda>r. similarity r \<noteq> NaN) rows \<and>
            sorted_wrt (\<lambda>a b. float8_le b a) (map similarity rows))"
proof -
  from assms obtain xs where xs: "distances q (candidates docs uid) = Inr xs"
    and rows: "rows = map select_row (take 3 (sort_key (\<lambda>dx. float8_key (snd dx)) xs))"
    by (rule top_k_rows)
  let ?ys = "take 3 (sort_key (\<lambda>dx. float8_key (snd dx)) xs)"
  have sim: "map similarity rows = map (\<lambda>dx. one_minus (snd dx)) ?ys"
    unfolding rows by (simp add: select_row_def comp_def)
  have dist: "map (\<lambda>r. one_minus (similarity r)) rows = map snd ?ys"
    unfolding rows by (simp add: select_row_def comp_def one_minus_one_minus)
  have asc: "sorted_wrt float8_le (map snd ?ys)"
    by (rule ranked_ascending)
  have p1: "\<exists>d \<in> set docs. \<exists>v x. embedding d = Some v \<and> user_id d = uid \<and>
              id_doc d = id_res r \<and> length v = length q \<and>
              cosine_distance v q = Inr x \<and> similarity r = one_minus x \<and>
              similarity r =
                (if sum_list (map2 (*) v v) = 0 \<or> sum_list (map2 (*) q q) = 0 then NaN
                 else Num (sum_list (map2 (*) v q) /
                           sqrt (sum_list (map2 (*) v v) * sum_list (map2 (*) q q))))"
    if "r \<in> set rows" for r
  proof -
    from top_k_source [OF assms that] obtain d v x
      where d: "d \<in> set docs" "embedding d = Some v" "user_id d = uid"
        "cosine_distance v q = Inr x" "r = select_row (d, x)"
      by blast
    from cosine_distance_value [OF d(4)] d show ?thesis
      by (intro bexI [of _ d] exI [of _ v] exI [of _ x]) (simp_all add: select_row_def)
  qed
  have p3: "list_all (\<lambda>r. similarity r \<noteq> NaN) rows \<and>
            sorted_wrt (\<lambda>a b. float8_le b a) (map similarity rows)"
    if nz: "sum_list (map2 (*) q q) \<noteq> 0 \<and>
          list_all (\<lambda>dv. sum_list (map2 (*) (snd dv) (snd dv)) \<noteq> 0) (candidates docs uid)"
  proof -
    have num: "snd dx \<noteq> NaN" if "dx \<in> set xs" for dx
    proof -
      from distances_member [OF xs that] obtain dv
        where "dv \<in> set (candidates docs uid)" "cosine_distance (snd dv) q = Inr (snd dx)"
        by blast
      with nz show ?thesis
        by (auto simp: cosine_distance_def inner_product_def list_all_iff split: if_splits)
    qed
    have "set ?ys \<subseteq> set xs" by (rule set_ranked_subset)
    with num have ys: "list_all (\<lambda>dx. snd dx \<noteq> NaN) ?ys"
      by (auto simp: list_all_iff)
    then have "list_all (\<lambda>r. similarity r \<noteq> NaN) rows"
      unfolding rows
      by (auto simp: list_all_iff select_row_def elim: one_minus.elims)
    moreover have "sorted_wrt (\<lambda>a b. float8_le b a) (map similarity rows)"
      unfolding sim using asc ys by (rule descending_of_ascending)
    ultimately show ?thesis by blast
  qed
  from p1 p3 asc show ?thesis unfolding dist by blast
qed

text \<open>
  On the example table the owner's embeddings are the query itself (twice), a vector
  orthogonal to it and the opposite vector: the three results score 1, 1 and 0.
\<close>

theorem similarity_one_minus_distance_descending_witness:
  "top_k_by_similarity example_docs 1 [1, 0] =
     Inr [\<lparr>id_res = 1, title_res = ''a'', content_res = ''x'', similarity = Num 1,
           created_at_res = 10\<rparr>,
          \<lparr>id_res = 6, title_res = ''f'', content_res = ''w'', similarity = Num 1,
           created_at_res = 15\<rparr>,
          \<lparr>id_res = 4, title_res = ''d'', content_res = ''u'', similarity = Num 0,
           created_at_res = 13\<rparr>] \<and>
   sorted_wrt float8_le [Num 0, Num 0, Num 1] \<and>
   sorted_wrt (\<lambda>a b. float8_le b a) [Num 1, Num 1, Num 0]"
  using similarity_one_minus_distance_descending [OF example_search]
  by (simp add: example_search float8_le_def)

subsection \<open>Helper lemmas on the embedder and the embedding write\<close>

lemma update_embedding_idem:
  "update_embedding (update_embedding docs did v) did v = update_embedding docs did v"
  by (simp add: update_embedding_def)

lemma update_embedding_absent:
  "list_all (\<lambda>d. id_doc d \<noteq> did) docs \<Longrightarrow> update_embedding docs did v = docs"
  by (induction docs) (simp_all add: update_embedding_def)

lemma generate_embedding_example_x: "generate_embedding example_env ''x'' = Inr [1, 0]"
  by (simp add: generate_embedding_def get_embedding_model_def example_env_def
      example_model_def)

lemma generate_embedding_example_other:
  "txt \<noteq> ''x'' \<Longrightarrow> generate_embedding example_env txt = Inr [0, 1]"
  by (simp add: generate_embedding_def get_embedding_model_def example_env_def
      example_model_def)

lemma generate_embedding_broken: "generate_embedding broken_env txt = Inl ModelError"
  by (simp add: generate_embedding_def get_embedding_model_def broken_env_def)

subsection \<open>C4: the indexing task on a document that was deleted\<close>

text \<open>
  Claim C4. When no row has the id the task was enqueued for, the update leaves the
  table as it is, so whatever the task's outcome the store after it is the store before
  it (no row with that id appears, every other row is unchanged); and when the
  embedding is computed and the store works, the task raises nothing: it executes,
  commits and returns success.
\<close>

theorem task_on_deleted_document_noop:
  assumes "list_all (\<lambda>d. id_doc d \<noteq> did) (documents db)"
  shows "update_embedding (documents db) did v = documents db \<and>
         fst (snd (generate_document_embedding e fault db did txt)) = db \<and>
         list_all (\<lambda>d. id_doc d \<noteq> did)
           (documents (fst (snd (generate_document_embedding e fault db did txt)))) \<and>
         (generate_embedding e txt = Inr v \<longrightarrow>
            generate_document_embedding e No_fault db did txt =
              (Inr \<lparr>status = ''success'', document_id = did\<rparr>, db,
               [Execute, Commit, Close]))"
proof -
  have db: "fst (snd (generate_document_embedding e fault db did txt)) = db"
    by (cases "generate_embedding e txt"; cases fault)
       (simp_all add: generate_document_embedding_def update_embedding_absent [OF assms])
  show ?thesis
    using assms db
    by (simp add: generate_document_embedding_def update_embedding_absent [OF assms])
qed

text \<open>
  Document 4 of the example store is deleted by its owner after its job was enqueued;
  the job then runs on the store without it.
\<close>

theorem task_on_deleted_document_noop_witness:
  "delete_document example_db 1 4 =
     Inr (example_db\<lparr>documents := filter (\<lambda>d. id_doc d \<noteq> 4) example_docs\<rparr>) \<and>
   list_all (\<lambda>d. id_doc d \<noteq> 4)
     (documents (example_db\<lparr>documents := filter (\<lambda>d. id_doc d \<noteq> 4) example_docs\<rparr>)) \<and>
   generate_document_embedding example_env No_fault
       (example_db\<lparr>documents := filter (\<lambda>d. id_doc d \<noteq> 4) example_docs\<rparr>) 4 ''u'' =
     (Inr \<lparr>status = ''success'', document_id = 4\<rparr>,
      example_db\<lparr>documents := filter (\<lambda>d. id_doc d \<noteq> 4) example_docs\<rparr>,
      [Execute, Commit, Close])"
proof -
  let ?db = "example_db\<lparr>documents := filter (\<lambda>d. id_doc d \<noteq> 4) example_docs\<rparr>"
  have del: "delete_document example_db 1 4 = Inr ?db"
    by (simp add: delete_document_def example_db_def example_docs_def)
  have h: "list_all (\<lambda>d. id_doc d \<noteq> 4) (documents ?db)"
    by (simp add: example_docs_def)
  have g: "generate_embedding example_env ''u'' = Inr [0, 1]"
    by (simp add: generate_embedding_example_other)
  from task_on_deleted_document_noop [OF h, of "[0, 1]" example_env No_fault "''u''"] del h g
  show ?thesis by simp
qed

subsection \<open>C5: the embedding write is idempotent\<close>

text \<open>
  Claim C5. For every table, document id and vector, the update applied twice with the
  same vector gives the table the update applied once gives; and a second successful
  run of the indexing task with the same id and content leaves the store as the first
  run left it.
\<close>

theorem set_embedding_idempotent:
  "update_embedding (update_embedding docs did v) did v = update_embedding docs did v \<and>
   fst (snd (generate_document_embedding e No_fault
      (fst (snd (generate_document_embedding e No_fault db did txt))) did txt))
   = fst (snd (generate_document_embedding e No_fault db did txt))"
  by (cases "generate_embedding e txt")
     (simp_all add: generate_document_embedding_def update_embedding_idem)

theorem set_embedding_idempotent_witness:
  "map embedding (update_embedding (update_embedding example_docs 2 [0, 1]) 2 [0, 1]) =
     [Some [1, 0], Some [0, 1], Some [1, 0], Some [0, 1], Some [-1, 0], Some [1, 0]] \<and>
   update_embedding (update_embedding example_docs 2 [0, 1]) 2 [0, 1] =
     update_embedding example_docs 2 [0, 1]"
  using set_embedding_idempotent [of example_docs 2 "[0, 1]" example_env example_db "''y''"]
  by (simp add: update_embedding_def example_docs_def)

subsection \<open>C7: the search fails closed\<close>

text \<open>
  Claim C7. When embedding the query text raises, the search raises that error; no
  statement has been sent to the store and nothing was logged; and no list of results,
  empty or not, is returned in its place.
\<close>

theorem search_fails_closed:
  assumes "generate_embedding e (query req) = Inl err"
  shows "search_documents e docs uid req = (Inl err, []) \<and>
         (\<forall>rows. fst (search_documents e docs uid req) \<noteq> Inr rows) \<and>
         Sql_execute \<notin> set (snd (search_documents e docs uid req))"
  using assms by (simp add: search_documents_def)

theorem search_fails_closed_witness:
  "generate_embedding broken_env (query \<lparr>query = ''x''\<rparr>) = Inl ModelError \<and>
   search_documents broken_env example_docs 1 \<lparr>query = ''x''\<rparr> = (Inl ModelError, [])"
proof -
  have h: "generate_embedding broken_env (query \<lparr>query = ''x''\<rparr>) = Inl ModelError"
    by (rule generate_embedding_broken)
  from search_fails_closed [OF h] h show ?thesis by simp
qed

subsection \<open>C9: the text of the query vector\<close>

lemma split_commas_no_comma: "CHR '','' \<notin> set x \<Longrightarrow> split_commas x = [x]"
  by (induction x) (auto split: list.splits)

lemma split_commas_append:
  "CHR '','' \<notin> set x \<Longrightarrow> split_commas (x @ CHR '','' # r) = x # split_commas r"
  by (induction x) (auto split: list.splits)

lemma split_commas_join:
  "xs \<noteq> [] \<Longrightarrow> \<forall>x \<in> set xs. CHR '','' \<notin> set x \<Longrightarrow> split_commas (join '','' xs) = xs"
proof (induction "'',''" xs rule: join.induct)
  case 1
  then show ?case by simp
next
  case (2 x)
  then show ?case by (simp add: split_commas_no_comma)
next
  case (3 x y ys)
  then show ?case by (simp add: split_commas_append)
qed

lemma parse_all_map:
  "\<forall>x \<in> set v. parse (str x) = Some x \<Longrightarrow> parse_all parse (map str v) = Some v"
  by (induction v) simp_all

lemma cast_vector_brackets:
  "cast_vector parse (CHR ''['' # inner @ '']'') = parse_all parse (split_commas inner)"
  by (simp add: cast_vector_def)

lemma comma_not_decimal: "\<not> decimal_char (CHR '','')"
  by (simp add: decimal_char_def)

lemma decimal_text_no_comma: "decimal_text s \<Longrightarrow> CHR '','' \<notin> set s"
  using comma_not_decimal by (auto simp: decimal_text_def list_all_iff)

lemma embedding_str_inside:
  "butlast (tl (embedding_str str v)) = join '','' (map str v)"
  by (simp add: embedding_str_def butlast_append)

lemma cast_embedding_str:
  assumes "v \<noteq> []"
    and "\<forall>x \<in> set v. CHR '','' \<notin> set (str x)"
    and "\<forall>x \<in> set v. parse (str x) = Some x"
  shows "cast_vector parse (embedding_str str v) = Some v"
proof -
  have "split_commas (join '','' (map str v)) = map str v"
    using assms(1,2) by (intro split_commas_join) auto
  then show ?thesis
    using assms(3) by (simp add: embedding_str_def cast_vector_brackets parse_all_map)
qed

text \<open>
  Claim C9. For every non-empty vector whose components Python prints as decimal
  texts, the text sent to the store begins with an opening bracket and ends with a
  closing bracket; what stands between them, split at the commas, is the list of the
  printed components, one decimal text per component and in the order of the vector;
  and when the store's parser reads every printed number back as the number, the cast
  of the text at query time is the vector itself, so that the statement executed on the
  text is the ranking against the vector, raising where that raises.
\<close>

theorem query_vector_text_encoding:
  assumes "v \<noteq> []" and "\<forall>x \<in> set v. decimal_text (str_float e x)"
  shows "hd (embedding_str (str_float e) v) = CHR ''['' \<and>
         last (embedding_str (str_float e) v) = CHR '']'' \<and>
         split_commas (butlast (tl (embedding_str (str_float e) v))) = map (str_float e) v \<and>
         list_all decimal_text (split_commas (butlast (tl (embedding_str (str_float e) v)))) \<and>
         ((\<forall>x \<in> set v. float_in e (str_float e x) = Some x) \<longrightarrow>
            cast_vector (float_in e) (embedding_str (str_float e) v) = Some v \<and>
            execute_search_sql e docs (embedding_str (str_float e) v) uid =
              top_k_by_similarity docs uid v)"
proof -
  from assms(2) have nc: "\<forall>x \<in> set v. CHR '','' \<notin> set (str_float e x)"
    by (auto dest: decimal_text_no_comma)
  have s: "split_commas (butlast (tl (embedding_str (str_float e) v))) = map (str_float e) v"
    unfolding embedding_str_inside using assms(1) nc by (intro split_commas_join) auto
  have d: "list_all decimal_text (map (str_float e) v)"
    using assms(2) by (simp add: list_all_iff)
  have c: "cast_vector (float_in e) (embedding_str (str_float e) v) = Some v"
    if "\<forall>x \<in> set v. float_in e (str_float e x) = Some x"
    using assms(1) nc that by (rule cast_embedding_str)
  have b: "hd (embedding_str (str_float e) v) = CHR ''['' \<and>
         last (embedding_str (str_float e) v) = CHR '']''"
    by (simp add: embedding_str_def)
  show ?thesis
    using b c d unfolding s by (simp add: execute_search_sql_def)
qed

lemma cosine_distance_same_2: "cosine_distance [0, 1] [0, 1] = Inr (Num 0)"
  by (simp add: cosine_distance_def inner_product_def)

lemma cosine_distance_orthogonal_2: "cosine_distance [1, 0] [0, 1] = Inr (Num 1)"
  by (simp add: cosine_distance_def inner_product_def)

lemma cosine_distance_orthogonal_3: "cosine_distance [-1, 0] [0, 1] = Inr (Num 1)"
  by (simp add: cosine_distance_def inner_product_def)

lemma example_search_2:
  "top_k_by_similarity example_docs 1 [0, 1] =
     Inr [\<lparr>id_res = 4, title_res = ''d'', content_res = ''u'', similarity = Num 1,
           created_at_res = 13\<rparr>,
          \<lparr>id_res = 1, title_res = ''a'', content_res = ''x'', similarity = Num 0,
           created_at_res = 10\<rparr>,
          \<lparr>id_res = 5, title_res = ''e'', content_res = ''v'', similarity = Num 0,
           created_at_res = 14\<rparr>]"
  by (simp add: top_k_by_similarity_def example_docs_def select_row_def
      cosine_distance_same_2 cosine_distance_orthogonal_2 cosine_distance_orthogonal_3)

lemma example_search_dimension:
  "top_k_by_similarity example_docs 1 [0, 1, -1] = Inl SQLAlchemyError"
  by (simp add: top_k_by_similarity_def example_docs_def cosine_distance_def)

lemma example_codec:
  "example_str 0 = ''0.0''" "example_str 1 = ''1.0''" "example_str (- 1) = ''-1.0''"
  "example_float_in ''0.0'' = Some 0" "example_float_in ''1.0'' = Some 1"
  "example_float_in ''-1.0'' = Some (- 1)"
  "str_float example_env = example_str" "float_in example_env = example_float_in"
  by (simp_all add: example_str_def example_float_in_def example_env_def)

lemma example_decimal:
  "decimal_text ''0.0''" "decimal_text ''1.0''" "decimal_text ''-1.0''"
  by (simp_all add: decimal_text_def decimal_char_def)

text \<open>
  In the toy environment the vector \<open>[0, 1]\<close> is sent as \<^verbatim>\<open>[0.0,1.0]\<close> and ranked
  against the two-dimensional rows of the example table; the vector \<open>[0, 1, -1]\<close> is
  sent as \<^verbatim>\<open>[0.0,1.0,-1.0]\<close>, and the statement raises on the different dimension.
\<close>

theorem query_vector_text_encoding_witness:
  "embedding_str (str_float example_env) [0, 1] = ''[0.0,1.0]'' \<and>
   split_commas ''0.0,1.0'' = [''0.0'', ''1.0''] \<and>
   cast_vector (float_in example_env) ''[0.0,1.0]'' = Some [0, 1] \<and>
   execute_search_sql example_env example_docs ''[0.0,1.0]'' 1 =
     top_k_by_similarity example_docs 1 [0, 1] \<and>
   embedding_str (str_float example_env) [0, 1, -1] = ''[0.0,1.0,-1.0]'' \<and>
   execute_search_sql example_env example_docs ''[0.0,1.0,-1.0]'' 1 = Inl SQLAlchemyError"
proof -
  have t: "embedding_str example_str [0, 1] = ''[0.0,1.0]''"
    "embedding_str example_str [0, 1, -1] = ''[0.0,1.0,-1.0]''"
    by (simp_all add: embedding_str_def example_codec)
  have a: "cast_vector (float_in example_env) (embedding_str (str_float example_env) [0, 1])
             = Some [0, 1] \<and>
           execute_search_sql example_env example_docs
             (embedding_str (str_float example_env) [0, 1]) 1 =
           top_k_by_similarity example_docs 1 [0, 1]"
    using query_vector_text_encoding [of "[0, 1]" example_env example_docs 1]
    by (simp add: example_codec example_decimal)
  have b: "execute_search_sql example_env example_docs
             (embedding_str (str_float example_env) [0, 1, -1]) 1 =
           top_k_by_similarity example_docs 1 [0, 1, -1]"
    using query_vector_text_encoding [of "[0, 1, -1]" example_env example_docs 1]
    by (simp add: example_codec example_decimal)
  from a b show ?thesis
    unfolding example_codec t example_search_dimension by simp
qed

subsection \<open>C10: the outcomes of the indexing task\<close>

lemma task_raises_cases:
  assumes "generate_document_embedding e fault db did c = (Inl err, db', tr)"
  shows "db' = db \<and>
         ((generate_embedding e c = Inl err \<and> tr = []) \<or>
          (generate_embedding e c \<noteq> Inl err \<and> fault \<noteq> No_fault \<and>
             err = SQLAlchemyError \<and> Rollback \<in> set tr))"
  using assms
  by (cases "generate_embedding e c"; cases fault)
     (auto simp: generate_document_embedding_def)

text \<open>
  Claim C10 says that the task raises only after rolling back. It does not when the
  embedding computation raises: that call stands before the session is opened and
  outside the \<^verbatim>\<open>try\<close>. With a model that cannot be loaded the task raises and the
  session's trace has no rollback.
\<close>

theorem task_raises_without_rollback:
  "fst (generate_document_embedding broken_env No_fault example_db 1 ''x'') = Inl ModelError \<and>
   Rollback \<notin> set (snd (snd (generate_document_embedding broken_env No_fault example_db 1 ''x'')))"
  by (simp add: generate_document_embedding_def generate_embedding_broken)

text \<open>
  Claim C10, amended. When no row has the task's id, the embedding is computed and the
  store works, the task still executes, commits and returns success rather than
  raising, the store unchanged, so the at-least-once queue takes the job as completed
  and does not deliver it again. The task raises only when the embedding computation
  or the store's execute or commit raises, and the store is unchanged in both cases:
  the store's error is re-raised after a rollback, the embedding's error is raised
  before any session call, so without one. The queue keeps a job for another delivery
  exactly when its task raised.
\<close>

theorem task_outcomes:
  "(list_all (\<lambda>d. id_doc d \<noteq> did) (documents db) \<and> generate_embedding e txt = Inr v \<longrightarrow>
      generate_document_embedding e No_fault db did txt =
        (Inr \<lparr>status = ''success'', document_id = did\<rparr>, db, [Execute, Commit, Close]) \<and>
      worker_step e No_fault (db, (did, txt) # rest) = (db, rest)) \<and>
   (\<forall>err db' tr.
      generate_document_embedding e fault db did txt = (Inl err, db', tr) \<longrightarrow>
        db' = db \<and>
        (generate_embedding e txt = Inl err \<or> fault \<noteq> No_fault) \<and>
        (Rollback \<in> set tr \<longleftrightarrow> generate_embedding e txt \<noteq> Inl err) \<and>
        (generate_embedding e txt = Inl err \<longrightarrow> tr = []) \<and>
        worker_step e fault (db, (did, txt) # rest) = (db, rest @ [(did, txt)])) \<and>
   (\<forall>res db' tr.
      generate_document_embedding e fault db did txt = (Inr res, db', tr) \<longrightarrow>
        worker_step e fault (db, (did, txt) # rest) = (db', rest))"
proof (intro conjI allI impI)
  assume a: "list_all (\<lambda>d. id_doc d \<noteq> did) (documents db) \<and> generate_embedding e txt = Inr v"
  then show t: "generate_document_embedding e No_fault db did txt =
        (Inr \<lparr>status = ''success'', document_id = did\<rparr>, db, [Execute, Commit, Close])"
    by (simp add: generate_document_embedding_def update_embedding_absent)
  then show "worker_step e No_fault (db, (did, txt) # rest) = (db, rest)"
    by (simp add: worker_step_def)
next
  fix err db' tr
  assume a: "generate_document_embedding e fault db did txt = (Inl err, db', tr)"
  from task_raises_cases [OF a] show "db' = db" by simp
  from task_raises_cases [OF a]
  show "generate_embedding e txt = Inl err \<or> fault \<noteq> No_fault" by blast
  from task_raises_cases [OF a]
  show "(Rollback \<in> set tr) = (generate_embedding e txt \<noteq> Inl err)" by auto
  from task_raises_cases [OF a] a
  show "worker_step e fault (db, (did, txt) # rest) = (db, rest @ [(did, txt)])"
    by (simp add: worker_step_def)
  assume "generate_embedding e txt = Inl err"
  with task_raises_cases [OF a] show "tr = []" by blast
next
  fix res db' tr
  assume "generate_document_embedding e fault db did txt = (Inr res, db', tr)"
  then show "worker_step e fault (db, (did, txt) # rest) = (db', rest)"
    by (simp add: worker_step_def)
qed

text \<open>
  On the example store: a task for the unused id 99 succeeds, changes nothing and its
  job leaves the queue; a commit that fails is rolled back and re-raised, and the job
  goes back to the queue; a model that cannot be loaded makes the task raise before any
  session call, and the job goes back to the queue.
\<close>

theorem task_outcomes_witness:
  "generate_document_embedding example_env No_fault example_db 99 ''x'' =
     (Inr \<lparr>status = ''success'', document_id = 99\<rparr>, example_db, [Execute, Commit, Close]) \<and>
   worker_step example_env No_fault (example_db, [(99, ''x''), (2, ''y'')]) =
     (example_db, [(2, ''y'')]) \<and>
   generate_document_embedding example_env Commit_fails example_db 1 ''x'' =
     (Inl SQLAlchemyError, example_db, [Execute, Commit, Rollback, Close]) \<and>
   worker_step example_env Commit_fails (example_db, [(1, ''x''), (2, ''y'')]) =
     (example_db, [(2, ''y''), (1, ''x'')]) \<and>
   generate_document_embedding broken_env No_fault example_db 1 ''x'' =
     (Inl ModelError, example_db, []) \<and>
   worker_step broken_env No_fault (example_db, [(1, ''x''), (2, ''y'')]) =
     (example_db, [(2, ''y''), (1, ''x'')])"
proof -
  have h: "list_all (\<lambda>d. id_doc d \<noteq> 99) (documents example_db)"
    by (simp add: example_db_def example_docs_def)
  have a: "generate_document_embedding example_env Commit_fails example_db 1 ''x'' =
     (Inl SQLAlchemyError, example_db, [Execute, Commit, Rollback, Close])"
    by (simp add: generate_document_embedding_def generate_embedding_example_x)
  have b: "generate_document_embedding broken_env No_fault example_db 1 ''x'' =
     (Inl ModelError, example_db, [])"
    by (simp add: generate_document_embedding_def generate_embedding_broken)
  from task_outcomes [of 99 example_db example_env "''x''" "[1, 0]" "[(2, ''y'')]" No_fault]
    task_outcomes [of 1 example_db example_env "''x''" "[1, 0]" "[(2, ''y'')]" Commit_fails]
    task_outcomes [of 1 example_db broken_env "''x''" "[1, 0]" "[(2, ''y'')]" No_fault]
    h a b generate_embedding_example_x
  show ?thesis by simp
qed

subsection \<open>C8: a search request with an empty query\<close>

lemma generate_embedding_error: "generate_embedding e c = Inl err \<Longrightarrow> err = ModelError"
  by (auto simp: generate_embedding_def get_embedding_model_def split: option.splits)

lemma cosine_distance_error: "cosine_distance v q = Inl err \<Longrightarrow> err = SQLAlchemyError"
  by (auto simp: cosine_distance_def split: if_splits)

lemma distances_error: "distances q cands = Inl err \<Longrightarrow> err = SQLAlchemyError"
  by (induction cands) (auto split: sum.splits dest: cosine_distance_error)

lemma execute_search_sql_error:
  "execute_search_sql e docs s uid = Inl err \<Longrightarrow> err = SQLAlchemyError"
  by (auto simp: execute_search_sql_def top_k_by_similarity_def
      split: option.splits sum.splits dest: distances_error)

lemma search_documents_error:
  assumes "fst (search_documents e docs uid req) = Inl err"
  shows "err = ModelError \<or> err = SQLAlchemyError"
proof (cases "generate_embedding e (query req)")
  case (Inl a)
  with assms generate_embedding_error [OF Inl] show ?thesis
    by (simp add: search_documents_def)
next
  case (Inr v)
  show ?thesis
  proof (cases "execute_search_sql e docs (embedding_str (str_float e) v) uid")
    case (Inl a)
    with assms Inr execute_search_sql_error [OF Inl] show ?thesis
      by (simp add: search_documents_def)
  next
    case (Inr rows)
    with assms \<open>generate_embedding e (query req) = Inr v\<close> show ?thesis
      by (simp add: search_documents_def)
  qed
qed

lemma example_cast_01:
  "cast_vector (float_in example_env) (embedding_str (str_float example_env) [0, 1]) =
     Some [0, 1]"
  by (rule cast_embedding_str)
     (simp_all add: example_env_def example_str_def example_float_in_def)

lemma example_search_empty_query:
  "search_documents example_env example_docs 1 \<lparr>query = ''''\<rparr> =
     (Inr [\<lparr>id_res = 4, title_res = ''d'', content_res = ''u'', similarity = Num 1,
            created_at_res = 13\<rparr>,
           \<lparr>id_res = 1, title_res = ''a'', content_res = ''x'', similarity = Num 0,
            created_at_res = 10\<rparr>,
           \<lparr>id_res = 5, title_res = ''e'', content_res = ''v'', similarity = Num 0,
            created_at_res = 14\<rparr>],
      [Sql_execute, Log_user_action 1 ''DOCUMENT_SEARCH''])"
  by (simp add: search_documents_def generate_embedding_example_other execute_search_sql_def
      example_cast_01 example_search_2)

text \<open>
  Claim C8 says that a search request with an empty query text fails with a validation
  error. The schema declares \<^verbatim>\<open>query: str\<close> and nothing more: the body
  \<^verbatim>\<open>{"query": ""}\<close> validates, the empty text is embedded and the statement is run. On
  the example store the request returns the documents 4, 1 and 5.
\<close>

theorem empty_query_is_searched:
  "validate_search_request [''query'' \<mapsto> JString ''''] = Inr \<lparr>query = ''''\<rparr> \<and>
   post_search example_env example_docs 1 [''query'' \<mapsto> JString ''''] =
     (Inr [\<lparr>id_res = 4, title_res = ''d'', content_res = ''u'', similarity = Num 1,
            created_at_res = 13\<rparr>,
           \<lparr>id_res = 1, title_res = ''a'', content_res = ''x'', similarity = Num 0,
            created_at_res = 10\<rparr>,
           \<lparr>id_res = 5, title_res = ''e'', content_res = ''v'', similarity = Num 0,
            created_at_res = 14\<rparr>],
      [Sql_execute, Log_user_action 1 ''DOCUMENT_SEARCH'']) \<and>
   fst (post_search example_env example_docs 1 [''query'' \<mapsto> JString '''']) \<noteq>
     Inl RequestValidationError"
  by (simp add: post_search_def validate_search_request_def example_search_empty_query)

text \<open>
  Claim C8, amended. A request whose body has a string under \<^verbatim>\<open>query\<close> is handed to
  the search with that string; a body with no \<^verbatim>\<open>query\<close>, or with a value there that
  is not a string, fails with the validation error before anything else happens; the
  empty string is a string like any other, so the request is processed as a search of
  the empty text; and the search itself never raises the validation error or the
  not-found error, so a validation error is told apart from the errors of the model
  and of the store.
\<close>

theorem search_request_validation:
  "(body ''query'' = Some (JString s) \<longrightarrow>
      post_search e docs uid body = search_documents e docs uid \<lparr>query = s\<rparr>) \<and>
   ((\<forall>s. body ''query'' \<noteq> Some (JString s)) \<longrightarrow>
      post_search e docs uid body = (Inl RequestValidationError, [])) \<and>
   post_search e docs uid [''query'' \<mapsto> JString ''''] =
     search_documents e docs uid \<lparr>query = ''''\<rparr> \<and>
   fst (search_documents e docs uid req) \<noteq> Inl RequestValidationError \<and>
   fst (search_documents e docs uid req) \<noteq> Inl HTTP_404_NOT_FOUND"
proof (intro conjI impI)
  assume "body ''query'' = Some (JString s)"
  then show "post_search e docs uid body = search_documents e docs uid \<lparr>query = s\<rparr>"
    by (simp add: post_search_def validate_search_request_def)
next
  assume "\<forall>s. body ''query'' \<noteq> Some (JString s)"
  then show "post_search e docs uid body = (Inl RequestValidationError, [])"
    by (auto simp: post_search_def validate_search_request_def
        split: option.splits json.splits)
next
  show "post_search e docs uid [''query'' \<mapsto> JString ''''] =
     search_documents e docs uid \<lparr>query = ''''\<rparr>"
    by (simp add: post_search_def validate_search_request_def)
next
  show "fst (search_documents e docs uid req) \<noteq> Inl RequestValidationError"
    using search_documents_error [of e docs uid req RequestValidationError] by auto
  show "fst (search_documents e docs uid req) \<noteq> Inl HTTP_404_NOT_FOUND"
    using search_documents_error [of e docs uid req HTTP_404_NOT_FOUND] by auto
qed

theorem search_request_validation_witness:
  "post_search example_env example_docs 1 [''query'' \<mapsto> JString ''x''] =
     search_documents example_env example_docs 1 \<lparr>query = ''x''\<rparr> \<and>
   post_search example_env example_docs 1 [''query'' \<mapsto> JNumber 3] =
     (Inl RequestValidationError, []) \<and>
   post_search example_env example_docs 1 Map.empty = (Inl RequestValidationError, []) \<and>
   post_search example_env example_docs 1 [''query'' \<mapsto> JString ''''] =
     (Inr [\<lparr>id_res = 4, title_res = ''d'', content_res = ''u'', similarity = Num 1,
            created_at_res = 13\<rparr>,
           \<lparr>id_res = 1, title_res = ''a'', content_res = ''x'', similarity = Num 0,
            created_at_res = 10\<rparr>,
           \<lparr>id_res = 5, title_res = ''e'', content_res = ''v'', similarity = Num 0,
            created_at_res = 14\<rparr>],
      [Sql_execute, Log_user_action 1 ''DOCUMENT_SEARCH''])"
  using
    search_request_validation
      [of "[''query'' \<mapsto> JString ''x'']" "''x''" example_env example_docs 1]
    search_request_validation
      [of "[''query'' \<mapsto> JNumber 3]" "''x''" example_env example_docs 1]
    search_request_validation [of Map.empty "''x''" example_env example_docs 1]
  by (simp add: example_search_empty_query)

subsection \<open>C3: a document between its creation and its indexing\<close>















subsection \<open>The primary key in every reachable store\<close>

text \<open>
  The hypotheses on ids of the properties above hold in every store the operations
  can reach from the empty one: each operation keeps the ids distinct and below the
  next id.
\<close>

lemma map_id_update_embedding: "map id_doc (update_embedding docs i v) = map id_doc docs"
  by (induction docs) (simp_all add: update_embedding_def)

lemma ids_below_update_embedding:
  "list_all (\<lambda>d. id_doc d < n) docs \<Longrightarrow>
   list_all (\<lambda>d. id_doc d < n) (update_embedding docs i v)"
  by (induction docs) (simp_all add: update_embedding_def)

lemma primary_key_step:
  assumes "primary_key db"
  shows "primary_key (step e db op)"
proof (cases op)
  case (Create now uid document_data)
  with assms show ?thesis
    by (fastforce simp: primary_key_def ids_below_next_def create_document_def Let_def
        list_all_iff)
next
  case (Delete uid d)
  with assms show ?thesis
    by (auto simp: primary_key_def ids_below_next_def delete_document_def list_all_iff
        distinct_map_filter split: list.splits)
next
  case (Run_task fault d c)
  have "step e db op = db \<or>
        (\<exists>v. step e db op = db\<lparr>documents := update_embedding (documents db) d v\<rparr>)"
    unfolding Run_task
    by (cases "generate_embedding e c"; cases fault)
       (auto simp: generate_document_embedding_def)
  moreover have "primary_key (db\<lparr>documents := update_embedding (documents db) d v\<rparr>)" for v
    using assms
    by (simp add: primary_key_def ids_below_next_def map_id_update_embedding
        ids_below_update_embedding)
  ultimately show ?thesis using assms by auto
qed

lemma primary_key_run:
  "primary_key (run e \<lparr>documents = [], next_id = 1\<rparr> ops) \<and>
   (primary_key db \<longrightarrow> primary_key (run e db ops))"
proof -
  have r: "primary_key db \<Longrightarrow> primary_key (run e db ops)" for db
    unfolding run_def by (induction ops arbitrary: db) (simp_all add: primary_key_step)
  have "primary_key \<lparr>documents = [], next_id = 1\<rparr>"
    by (simp add: primary_key_def ids_below_next_def)
  with r show ?thesis by blast
qed

subsection \<open>The results are the nearest rows\<close>

text \<open>
  Every row of the owner with an embedding is either selected or, in the store's
  order, at least as far from the query as each selected row.
\<close>

lemma top_k_nearest:
  assumes "top_k_by_similarity docs uid q = Inr rows"
    and "dv \<in> set (candidates docs uid)"
  shows "\<exists>x. cosine_distance (snd dv) q = Inr x \<and>
           (select_row (fst dv, x) \<in> set rows \<or>
            (\<forall>r \<in> set rows. float8_le (one_minus (similarity r)) x))"
proof -
  from assms(1) obtain xs where xs: "distances q (candidates docs uid) = Inr xs"
    and rows: "rows = map select_row (take 3 (sort_key (\<lambda>dx. float8_key (snd dx)) xs))"
    by (rule top_k_rows)
  let ?f = "\<lambda>dx. float8_key (snd dx)"
  let ?ys = "sort_key ?f xs"
  from distances_covers [OF xs assms(2)] obtain dx
    where dx: "dx \<in> set xs" "fst dx = fst dv" "cosine_distance (snd dv) q = Inr (snd dx)"
    by blast
  have "sorted (map ?f (take 3 ?ys @ drop 3 ?ys))" by simp
  then have le: "\<forall>a \<in> set (take 3 ?ys). \<forall>b \<in> set (drop 3 ?ys). ?f a \<le> ?f b"
    unfolding map_append sorted_append by auto
  from dx(1) have "dx \<in> set (take 3 ?ys @ drop 3 ?ys)" by simp
  then consider "dx \<in> set (take 3 ?ys)" | "dx \<in> set (drop 3 ?ys)"
    unfolding set_append by blast
  then have "select_row dx \<in> set rows \<or>
            (\<forall>r \<in> set rows. float8_le (one_minus (similarity r)) (snd dx))"
  proof cases
    case 1
    then show ?thesis unfolding rows set_map by blast
  next
    case 2
    have "float8_le (one_minus (similarity r)) (snd dx)" if "r \<in> set rows" for r
    proof -
      from that obtain a where "r = select_row a" "a \<in> set (take 3 ?ys)"
        unfolding rows set_map by (rule imageE)
      with le 2 show ?thesis
        by (simp add: select_row_def one_minus_one_minus float8_le_def)
    qed
    then show ?thesis by blast
  qed
  moreover have "dx = (fst dv, snd dx)" using dx(2) by (cases dx) simp
  ultimately show ?thesis using dx(3) by metis
qed

end
